theory Spec2Isabelle
  imports Complex_Main "HOL-Library.Word" "HOL-Library.AList"
begin

unbundle bit_operations_syntax

section \<open>Errors\<close>

text \<open>
  \<^verbatim>\<open>Utils.fatal(text)\<close> throws a \<^verbatim>\<open>SpeedyError\<close> carrying the message text
  (utils/utils.js). A \<^verbatim>\<open>TypeError\<close> is what the JavaScript engine raises on
  a property read of \<^verbatim>\<open>null\<close> or on a call of \<^verbatim>\<open>undefined\<close>.
  A value of type \<open>error + 'a\<close> is \<open>Inl\<close> when the call throws.
\<close>

datatype error = SpeedyError string | TypeError

section \<open>Convolution function generator (gpu/kernels/shaders/convolution.js)\<close>

subsection \<open>Numbers and pixels\<close>

text \<open>
  The generated kernels add and multiply JavaScript numbers. None of the properties below
  depends on how this arithmetic rounds, so the operations are a parameter: \<open>fl_f32\<close>
  is the rounding done by storing into a \<^verbatim>\<open>Float32Array\<close>, \<open>fl_nan\<close> what
  \<^verbatim>\<open>+undefined\<close> gives.
\<close>

record 'a float_ops =
  fl_zero :: 'a
  fl_add :: "'a \<Rightarrow> 'a \<Rightarrow> 'a"
  fl_mul :: "'a \<Rightarrow> 'a \<Rightarrow> 'a"
  fl_f32 :: "'a \<Rightarrow> 'a"
  fl_nan :: 'a

datatype 'a vec4 = Vec4 (ch0: 'a) (ch1: 'a) (ch2: 'a) (ch3: 'a)

text \<open>An image is read as \<^verbatim>\<open>image[y][x]\<close>: row first, then column.\<close>

type_synonym 'a image = "int \<Rightarrow> int \<Rightarrow> 'a vec4"

subsection \<open>Helpers of the generator\<close>

text \<open>\<^verbatim>\<open>cartesian(a, b)\<close> is \<open>[a] x [b]\<close>; \<^verbatim>\<open>symmetricRange(n)\<close> is \<open>[-n, ..., n]\<close>.\<close>

definition cartesian :: "'b list \<Rightarrow> 'c list \<Rightarrow> ('b \<times> 'c) list" where
  "cartesian a b = concat (map (\<lambda>x. map (\<lambda>y. (x, y)) b) a)"

definition symmetricRange :: "nat \<Rightarrow> int list" where
  "symmetricRange n = map (\<lambda>x. int x - int n) [0..<2 * n + 1]"

text \<open>
  \<^verbatim>\<open>Math.sqrt(len) | 0\<close> for an array length \<open>len\<close>: the integer square root
  (the double-precision square root of an integer below \<open>2^32\<close> has the same integer part).
\<close>

fun isqrt :: "nat \<Rightarrow> nat" where
  "isqrt 0 = 0"
| "isqrt (Suc n) = (let r = isqrt n in if (r + 1) * (r + 1) \<le> Suc n then r + 1 else r)"

text \<open>\<^verbatim>\<open>kernel32[i]\<close>: a read outside a typed array gives \<^verbatim>\<open>undefined\<close>.\<close>

definition k_at :: "'a float_ops \<Rightarrow> 'a list \<Rightarrow> int \<Rightarrow> 'a" where
  "k_at ops kernel32 i = (if 0 \<le> i \<and> i < int (length kernel32) then kernel32 ! nat i else fl_nan ops)"

definition to_kernel32 :: "'a float_ops \<Rightarrow> 'a list \<Rightarrow> 'a \<Rightarrow> 'a list" where
  "to_kernel32 ops kern normalizationConstant =
     map (\<lambda>x. fl_f32 ops (fl_mul ops x normalizationConstant)) kern"

subsection \<open>Generated code\<close>

text \<open>
  The generators build the text of a kernel body and hand it to \<^verbatim>\<open>new Function\<close>.
  The text is a fixed prologue, a sequence of the lines below (one group per kernel element)
  and a fixed epilogue; a body is modelled as the list of these lines.
  \<^item> \<open>SetY_clamped i\<close>: \<^verbatim>\<open>y = Math.min(Math.max(this.thread.y + (i), 0), height - 1);\<close>
  \<^item> \<open>SetX_clamped j\<close>: \<^verbatim>\<open>x = Math.min(Math.max(this.thread.x + (j), 0), width - 1);\<close>
  \<^item> \<open>SetY_thread\<close>: \<^verbatim>\<open>y = this.thread.y;\<close>
  \<^item> \<open>SetX_thread\<close>: \<^verbatim>\<open>x = this.thread.x;\<close>
  \<^item> \<open>Accum k\<close>: \<^verbatim>\<open>p = image[y][x]; r += p[0] * k; g += p[1] * k; b += p[2] * k;\<close>
\<close>

datatype 'a stmt =
    SetY_clamped int
  | SetX_clamped int
  | SetY_thread
  | SetX_thread
  | Accum 'a

datatype axis = AxisX | AxisY | AxisOther string

text \<open>The local variables of a kernel body, and the list of texels of \<open>image\<close> read so far.\<close>

record 'a kstate =
  kr :: 'a
  kg :: 'a
  kb :: 'a
  kp :: "'a vec4"
  kx :: int
  ky :: int
  fetched :: "(int \<times> int) list"

definition conv2D_generateCode :: "'a \<Rightarrow> int \<Rightarrow> int \<Rightarrow> 'a stmt list" where
  "conv2D_generateCode k i j = [SetY_clamped i, SetX_clamped j, Accum k]"

definition conv2D :: "'a float_ops \<Rightarrow> 'a list \<Rightarrow> 'a \<Rightarrow> error + 'a stmt list" where
  "conv2D ops kern normalizationConstant =
     (let kernel32 = to_kernel32 ops kern normalizationConstant;
          kSize = isqrt (length kernel32);
          N = kSize div 2
      in if kSize < 1 \<or> kSize mod 2 = 0 then
           Inl (SpeedyError ''Can't perform a 2D convolution with an invalid kSize'')
         else if kSize * kSize \<noteq> length kernel32 then
           Inl (SpeedyError ''Invalid 2D convolution kernel (expected: square)'')
         else
           Inr (foldl (\<lambda>acc cur. acc @ conv2D_generateCode
                         (k_at ops kernel32 ((fst cur + int N) * int kSize + (snd cur + int N)))
                         (fst cur) (snd cur))
                  [] (cartesian (symmetricRange N) (symmetricRange N))))"

definition conv1D_generateCode :: "axis \<Rightarrow> 'a \<Rightarrow> int \<Rightarrow> 'a stmt list" where
  "conv1D_generateCode axis k i =
     (if axis = AxisX then [SetY_thread, SetX_clamped i] else [SetY_clamped i, SetX_thread])
     @ [Accum k]"

definition conv1D :: "'a float_ops \<Rightarrow> axis \<Rightarrow> 'a list \<Rightarrow> 'a \<Rightarrow> error + 'a stmt list" where
  "conv1D ops axis kern normalizationConstant =
     (let kernel32 = to_kernel32 ops kern normalizationConstant;
          kSize = length kernel32;
          N = kSize div 2
      in if kSize < 1 \<or> kSize mod 2 = 0 then
           Inl (SpeedyError ''Can't perform a 1D convolution with an invalid kSize'')
         else if axis \<noteq> AxisX \<and> axis \<noteq> AxisY then
           Inl (SpeedyError ''Can't perform 1D convolution: invalid axis'')
         else
           Inr (foldl (\<lambda>acc cur. acc @ conv1D_generateCode axis (k_at ops kernel32 (cur + int N)) cur)
                  [] (symmetricRange N)))"

definition convX :: "'a float_ops \<Rightarrow> 'a list \<Rightarrow> 'a \<Rightarrow> error + 'a stmt list" where
  "convX ops kern normalizationConstant = conv1D ops AxisX kern normalizationConstant"

definition convY :: "'a float_ops \<Rightarrow> 'a list \<Rightarrow> 'a \<Rightarrow> error + 'a stmt list" where
  "convY ops kern normalizationConstant = conv1D ops AxisY kern normalizationConstant"

subsection \<open>Running a generated kernel at one thread\<close>

text \<open>
  \<open>width\<close> and \<open>height\<close> are \<^verbatim>\<open>this.constants.width\<close> and
  \<^verbatim>\<open>this.constants.height\<close>; \<open>tx\<close> and \<open>ty\<close> are \<^verbatim>\<open>this.thread.x\<close> and
  \<^verbatim>\<open>this.thread.y\<close>.
\<close>

fun exec_stmt :: "'a float_ops \<Rightarrow> int \<Rightarrow> int \<Rightarrow> 'a image \<Rightarrow> int \<Rightarrow> int \<Rightarrow>
    'a kstate \<Rightarrow> 'a stmt \<Rightarrow> 'a kstate" where
  "exec_stmt ops width height img tx ty s (SetY_clamped i) =
     s\<lparr>ky := min (max (ty + i) 0) (height - 1)\<rparr>"
| "exec_stmt ops width height img tx ty s (SetX_clamped j) =
     s\<lparr>kx := min (max (tx + j) 0) (width - 1)\<rparr>"
| "exec_stmt ops width height img tx ty s SetY_thread = s\<lparr>ky := ty\<rparr>"
| "exec_stmt ops width height img tx ty s SetX_thread = s\<lparr>kx := tx\<rparr>"
| "exec_stmt ops width height img tx ty s (Accum k) =
     (let p = img (ky s) (kx s)
      in s\<lparr>kp := p,
            kr := fl_add ops (kr s) (fl_mul ops (ch0 p) k),
            kg := fl_add ops (kg s) (fl_mul ops (ch1 p) k),
            kb := fl_add ops (kb s) (fl_mul ops (ch2 p) k),
            fetched := fetched s @ [(ky s, kx s)]\<rparr>)"

text \<open>
  The prologue reads \<^verbatim>\<open>pixel = image[this.thread.y][this.thread.x]\<close> and zeroes the
  locals; the epilogue is \<^verbatim>\<open>this.color(r, g, b, pixel[3])\<close>. The result is the colour
  written and the texels of \<open>image\<close> that were read.
\<close>

definition init_kstate :: "'a float_ops \<Rightarrow> int \<Rightarrow> int \<Rightarrow> 'a kstate" where
  "init_kstate ops tx ty =
     \<lparr>kr = fl_zero ops, kg = fl_zero ops, kb = fl_zero ops,
      kp = Vec4 (fl_zero ops) (fl_zero ops) (fl_zero ops) (fl_zero ops),
      kx = 0, ky = 0, fetched = [(ty, tx)]\<rparr>"

definition run_body :: "'a float_ops \<Rightarrow> int \<Rightarrow> int \<Rightarrow> 'a stmt list \<Rightarrow> 'a image \<Rightarrow> int \<Rightarrow> int \<Rightarrow>
    'a vec4 \<times> (int \<times> int) list" where
  "run_body ops width height body img tx ty =
     (let pixel = img ty tx;
          s = foldl (exec_stmt ops width height img tx ty) (init_kstate ops tx ty) body
      in (Vec4 (kr s) (kg s) (kb s) (ch3 pixel), fetched s))"

subsection \<open>Texture-based 1D convolution\<close>

text \<open>
  \<^verbatim>\<open>texConv1D(axis)\<close> returns a fixed body with a loop \<^verbatim>\<open>for(let i = -N; i <= N; i++)\<close>,
  \<open>N = Math.floor(kSize / 2)\<close>, where \<open>kSize\<close> is an argument of the kernel that is not
  checked. The kernel entry is read from the first row of \<open>texKernel\<close>.
\<close>

definition texConv1D :: "axis \<Rightarrow> error + axis" where
  "texConv1D axis =
     (if axis \<noteq> AxisX \<and> axis \<noteq> AxisY then
        Inl (SpeedyError ''Can't perform tex 1D convolution: invalid axis'')
      else Inr axis)"

definition texConvX :: "error + axis" where
  "texConvX = texConv1D AxisX"

definition texConvY :: "error + axis" where
  "texConvY = texConv1D AxisY"

definition texConv_step :: "'a float_ops \<Rightarrow> axis \<Rightarrow> int \<Rightarrow> int \<Rightarrow> 'a image \<Rightarrow> (int \<Rightarrow> 'a vec4) \<Rightarrow>
    int \<Rightarrow> 'a \<Rightarrow> 'a \<Rightarrow> int \<Rightarrow> int \<Rightarrow> 'a kstate \<Rightarrow> int \<Rightarrow> 'a kstate" where
  "texConv_step ops axis width height img texKernel0 N scale offset tx ty s i =
     (let s1 = (if axis = AxisX then s\<lparr>kx := max 0 (min (tx + i) (width - 1))\<rparr>
                else s\<lparr>ky := max 0 (min (ty + i) (height - 1))\<rparr>);
          p = img (ky s1) (kx s1);
          k = texKernel0 (i + N)
      in s1\<lparr>kp := p,
            kr := fl_add ops (kr s1) (fl_mul ops (ch0 p) (fl_add ops (fl_mul ops (ch0 k) scale) offset)),
            kg := fl_add ops (kg s1) (fl_mul ops (ch1 p) (fl_add ops (fl_mul ops (ch1 k) scale) offset)),
            kb := fl_add ops (kb s1) (fl_mul ops (ch2 p) (fl_add ops (fl_mul ops (ch2 k) scale) offset)),
            fetched := fetched s1 @ [(ky s1, kx s1)]\<rparr>)"

definition run_texConv :: "'a float_ops \<Rightarrow> axis \<Rightarrow> int \<Rightarrow> int \<Rightarrow> 'a image \<Rightarrow> (int \<Rightarrow> 'a vec4) \<Rightarrow>
    int \<Rightarrow> 'a \<Rightarrow> 'a \<Rightarrow> int \<Rightarrow> int \<Rightarrow> 'a vec4 \<times> (int \<times> int) list" where
  "run_texConv ops axis width height img texKernel0 kSize scale offset tx ty =
     (let N = kSize div 2;
          pixel = img ty tx;
          s0 = (init_kstate ops tx ty)\<lparr>kx := tx, ky := ty\<rparr>;
          s = foldl (texConv_step ops axis width height img texKernel0 N scale offset tx ty)
                s0 [- N..N]
      in (Vec4 (kr s) (kg s) (kb s) (ch3 pixel), fetched s))"

subsection \<open>Vocabulary of the properties\<close>

text \<open>
  A texel coordinate \<open>(y, x)\<close> is inside an image of \<open>width\<close> by \<open>height\<close> texels.
\<close>

definition inside :: "int \<Rightarrow> int \<Rightarrow> int \<times> int \<Rightarrow> bool" where
  "inside width height c = (0 \<le> snd c \<and> snd c < width \<and> 0 \<le> fst c \<and> fst c < height)"

text \<open>
  The coordinate in \<open>[0, n - 1]\<close> that is nearest to \<open>c\<close>: \<open>c\<close> itself when it is in
  range, else the edge on its side.
\<close>

definition nearest :: "int \<Rightarrow> int \<Rightarrow> int" where
  "nearest n c = (if c < 0 then 0 else if n - 1 < c then n - 1 else c)"

text \<open>Exact integer arithmetic and a small image, for evaluating the kernels on examples.\<close>

definition exact_ops :: "int float_ops" where
  "exact_ops = \<lparr>fl_zero = 0, fl_add = (+), fl_mul = (*), fl_f32 = id, fl_nan = 0\<rparr>"

definition sample_image :: "int image" where
  "sample_image y x = Vec4 (10 * y + x) 1 2 (100 + 10 * y + x)"

section \<open>Pyramid upsampling (gpu/kernels/shaders/pyramids/upsample2.glsl)\<close>

text \<open>
  A texture is read with \<^verbatim>\<open>pixelAt(image, pos)\<close>, that is \<^verbatim>\<open>texelFetch(image, pos, 0)\<close>,
  at an \<^verbatim>\<open>ivec2\<close> position \<open>(x, y)\<close>.
\<close>

type_synonym 'a texture = "int \<times> int \<Rightarrow> 'a vec4"

text \<open>
  Integer division of GLSL rounds towards zero; on an \<^verbatim>\<open>ivec2\<close> it works componentwise.
\<close>

definition glsl_idiv :: "int \<Rightarrow> int \<Rightarrow> int" where
  "glsl_idiv a b = (if (a < 0) = (b < 0) then \<bar>a\<bar> div \<bar>b\<bar> else - (\<bar>a\<bar> div \<bar>b\<bar>))"

definition ivec2_div :: "int \<times> int \<Rightarrow> int \<Rightarrow> int \<times> int" where
  "ivec2_div v d = (glsl_idiv (fst v) d, glsl_idiv (snd v) d)"

text \<open>\<^verbatim>\<open>mix(x, y, a)\<close> with a boolean \<open>a\<close> selects \<open>y\<close> where \<open>a\<close> is true, else \<open>x\<close>.\<close>

definition mix_bool :: "'a vec4 \<Rightarrow> 'a vec4 \<Rightarrow> bool \<Rightarrow> 'a vec4" where
  "mix_bool x y a = (if a then y else x)"

text \<open>
  \<^verbatim>\<open>main()\<close> of upsample2.glsl at the thread location \<open>thread\<close>; \<open>zero\<close> is \<^verbatim>\<open>0.0f\<close>.
  The sum \<open>thread.x + thread.y\<close> is a 32-bit sum in the shader; its lowest bit is that of
  the exact sum.
\<close>

definition upsample2 :: "'a \<Rightarrow> 'a texture \<Rightarrow> int \<times> int \<Rightarrow> 'a vec4" where
  "upsample2 zero img thread =
     (let pixel = img (ivec2_div thread 2)
      in mix_bool (Vec4 zero zero zero (ch3 pixel)) pixel
           (((fst thread + snd thread) AND 1) = 0))"

section \<open>Feature detection facade (core/feature-detector.js)\<close>

text \<open>
  \<^verbatim>\<open>Math.min\<close> of one argument returns it; \<^verbatim>\<open>Math.max\<close> of three arguments returns
  the largest.
\<close>

definition Math_min1 :: "rat \<Rightarrow> rat" where
  "Math_min1 a = a"

definition Math_max3 :: "rat \<Rightarrow> rat \<Rightarrow> rat \<Rightarrow> rat" where
  "Math_max3 a b c = max (max a b) c"

record feature_detector =
  lastKeypointCount :: nat

text \<open>
  The slack of \<^verbatim>\<open>_extractKeypoints\<close>, from the number of keypoints just decoded and
  \<^verbatim>\<open>this._lastKeypointCount\<close>:
  \<^verbatim>\<open>Math.max(1, Math.min(keypoints.length / this._lastKeypointCount), 2)\<close>.
\<close>

definition slack :: "nat \<Rightarrow> nat \<Rightarrow> rat" where
  "slack keypoints_length lastCount =
     (if lastCount > 0 then Math_max3 1 (Math_min1 (of_nat keypoints_length / of_nat lastCount)) 2 else 1)"

text \<open>
  \<^verbatim>\<open>_extractKeypoints\<close>, given the keypoints decoded from the encoder: the argument passed
  to \<^verbatim>\<open>optimizeKeypointEncoder\<close>, the detector afterwards and the keypoints returned.
\<close>

definition extractKeypoints :: "feature_detector \<Rightarrow> 'k list \<Rightarrow> rat \<times> feature_detector \<times> 'k list" where
  "extractKeypoints this keypoints =
     (let sl = slack (length keypoints) (lastKeypointCount this)
      in (of_nat (length keypoints) * sl,
          this\<lparr>lastKeypointCount := length keypoints\<rparr>,
          keypoints))"

text \<open>The slack the comment and the clamping calls aim at: the ratio clamped to \<open>[1, 2]\<close>.\<close>

definition clamped_ratio :: "nat \<Rightarrow> nat \<Rightarrow> rat" where
  "clamped_ratio keypoints_length lastCount = max 1 (min (of_nat keypoints_length / of_nat lastCount) 2)"

section \<open>Feature detection algorithm (core/algorithms/feature-detection-algorithm.js)\<close>

text \<open>
  The \<^verbatim>\<open>AutomaticSensitivity\<close> object is known here by its two properties
  \<^verbatim>\<open>expected\<close> and \<^verbatim>\<open>tolerance\<close>; what its constructor puts there is a parameter
  (\<open>fresh\<close>) of the setter.
\<close>

record automatic_sensitivity =
  as_expected :: rat
  as_tolerance :: rat

record feature_detection_algorithm =
  sensitivity :: rat
  automaticSensitivity :: "automatic_sensitivity option"
  useBufferQueue :: bool

text \<open>The constructor: \<^verbatim>\<open>_automaticSensitivity = null\<close>.\<close>

definition new_algorithm :: feature_detection_algorithm where
  "new_algorithm = \<lparr>sensitivity = 0, automaticSensitivity = None, useBufferQueue = True\<rparr>"

text \<open>
  What is assigned to \<^verbatim>\<open>expected\<close>: \<^verbatim>\<open>undefined\<close>, a number, or an object that may
  have a \<^verbatim>\<open>number\<close> and a \<^verbatim>\<open>tolerance\<close> property of its own.
\<close>

datatype expected_arg = ArgUndefined | ArgNumber rat | ArgObject "rat option" "rat option"

text \<open>What the getter returns: \<^verbatim>\<open>undefined\<close> or an object \<^verbatim>\<open>{ number, tolerance }\<close>.\<close>

datatype expected_value = ValUndefined | ValObject rat rat

text \<open>
  \<^verbatim>\<open>get expected()\<close>. Reading \<^verbatim>\<open>this._automaticSensitivity.expected\<close> while
  \<^verbatim>\<open>_automaticSensitivity\<close> is \<^verbatim>\<open>null\<close> throws a \<^verbatim>\<open>TypeError\<close>.
\<close>

definition get_expected :: "feature_detection_algorithm \<Rightarrow> error + expected_value" where
  "get_expected this =
     (if automaticSensitivity this = None then
        (case automaticSensitivity this of
           None \<Rightarrow> Inl TypeError
         | Some a \<Rightarrow> Inr (ValObject (as_expected a) (as_tolerance a)))
      else Inr ValUndefined)"

text \<open>\<^verbatim>\<open>set expected(expected)\<close>.\<close>

definition set_expected :: "automatic_sensitivity \<Rightarrow> feature_detection_algorithm \<Rightarrow> expected_arg \<Rightarrow>
    feature_detection_algorithm" where
  "set_expected fresh this expected =
     (if expected \<noteq> ArgUndefined then
        (let a0 = (case automaticSensitivity this of None \<Rightarrow> fresh | Some a \<Rightarrow> a);
             a1 = (case expected of
                     ArgObject number tolerance \<Rightarrow>
                       (let a' = (case number of Some n \<Rightarrow> a0\<lparr>as_expected := n\<rparr> | None \<Rightarrow> a0)
                        in (case tolerance of Some t \<Rightarrow> a'\<lparr>as_tolerance := t\<rparr> | None \<Rightarrow> a'))
                   | ArgNumber n \<Rightarrow> a0\<lparr>as_expected := n\<rparr>
                   | ArgUndefined \<Rightarrow> a0)
         in this\<lparr>automaticSensitivity := Some a1\<rparr>)
      else this\<lparr>automaticSensitivity := None\<rparr>)"

text \<open>
  What the documentation of the getter (\<^verbatim>\<open>@returns {object|undefined}\<close>) describes: the
  configured number and tolerance while automatic sensitivity is enabled, else
  \<^verbatim>\<open>undefined\<close>.
\<close>

definition documented_expected :: "feature_detection_algorithm \<Rightarrow> error + expected_value" where
  "documented_expected this =
     (case automaticSensitivity this of
        None \<Rightarrow> Inr ValUndefined
      | Some a \<Rightarrow> Inr (ValObject (as_expected a) (as_tolerance a)))"

text \<open>Example data for evaluating the definitions.\<close>

definition sample_texture :: "int texture" where
  "sample_texture p = Vec4 (10 * snd p + fst p) 1 2 (100 + 10 * snd p + fst p)"

section \<open>Kernel groups (gpu/gpu-kernel-group.js)\<close>

subsection \<open>Lazy instantiation of declared kernels\<close>

text \<open>
  Kernel settings and the configuration passed to \<^verbatim>\<open>createKernel\<close> are objects: maps from
  property names to values.
\<close>

datatype setting = SPair int int | SConstants int int | SString string | SBool bool

type_synonym settings = "string \<rightharpoonup> setting"

text \<open>
  The object returned by \<^verbatim>\<open>createKernel(fn, config)\<close>. Two kernel objects are the same
  object when they were made by the same call: \<open>k_id\<close> numbers the calls.
\<close>

record 'fn kernel =
  k_id :: nat
  k_fn :: 'fn
  k_config :: settings

















subsection \<open>Multi-pass composition\<close>


















section \<open>Scale encoding of the pyramids (gpu/programs/pyramids.js, utils/globals.js)\<close>

text \<open>
  JavaScript numbers are taken as real numbers here: \<^verbatim>\<open>Math.log2\<close> is the logarithm to
  base 2 and the arithmetic is exact. The properties below are those of the model of the
  scale that the source documents, not of its rounding.
\<close>

definition PYRAMID_MAX_LEVELS :: real where
  "PYRAMID_MAX_LEVELS = 4"

definition PYRAMID_MAX_SCALE :: real where
  "PYRAMID_MAX_SCALE = 2"

text \<open>
  The alpha that the shader made by \<^verbatim>\<open>setScale(scale)\<close> writes into every pixel.
\<close>

definition setScale :: "real \<Rightarrow> real" where
  "setScale scale =
     (let lgM = log 2 PYRAMID_MAX_SCALE;
          eps = 1 / 100000;
          pyramidMinScale = 2 powr (- PYRAMID_MAX_LEVELS) + eps;
          x = max pyramidMinScale (min scale PYRAMID_MAX_SCALE);
          alpha = (lgM - log 2 x) / (lgM + PYRAMID_MAX_LEVELS)
      in alpha)"

text \<open>\<^verbatim>\<open>clamp(x, lo, hi)\<close> of GLSL is \<^verbatim>\<open>min(max(x, lo), hi)\<close>.\<close>

definition glsl_clamp :: "real \<Rightarrow> real \<Rightarrow> real \<Rightarrow> real" where
  "glsl_clamp x lo hi = min (max x lo) hi"

text \<open>
  The shader made by \<^verbatim>\<open>scale(scaleFactor)\<close>: \<open>scale_delta\<close> is the constant \<open>delta\<close>
  computed by the generator, \<open>scale_alpha\<close> the alpha written for a pixel whose alpha is
  \<open>a\<close>.
\<close>

definition scale_delta :: "real \<Rightarrow> real" where
  "scale_delta scaleFactor =
     (let lgM = log 2 PYRAMID_MAX_SCALE;
          eps = 1 / 100000;
          s = max eps scaleFactor;
          delta = - log 2 s / (lgM + PYRAMID_MAX_LEVELS)
      in delta)"

definition scale_alpha :: "real \<Rightarrow> real \<Rightarrow> real" where
  "scale_alpha scaleFactor a = glsl_clamp (a + scale_delta scaleFactor) 0 1"

text \<open>
  The scale encoding as the specification writes it, for a scale ceiling \<open>M\<close> and a pyramid
  depth \<open>H\<close>; a scale \<open>x\<close> is valid when \<open>1 / 2^H < x \<le> M\<close>.
\<close>

definition alpha_spec :: "real \<Rightarrow> real \<Rightarrow> real \<Rightarrow> real" where
  "alpha_spec M H x = (log 2 M - log 2 x) / (log 2 M + H)"

definition valid_scale :: "real \<Rightarrow> real \<Rightarrow> real \<Rightarrow> bool" where
  "valid_scale M H x = (2 powr (- H) < x \<and> x \<le> M)"

section \<open>Keypoint codec (gpu/programs/encoders.js, gpu/shaders/encoders)\<close>

subsection \<open>Textures of bytes\<close>

text \<open>
  The textures are RGBA8: a channel holds a byte \<open>b\<close>. A shader reads it as the number
  \<open>b / 255\<close> and a number \<open>v\<close> written by a shader is stored as the byte nearest to
  \<open>255 * v\<close>, after clamping \<open>v\<close> to \<open>[0, 1]\<close>. The numbers of a shader are taken as
  rationals: the rounding of its 32-bit floats is not modelled. Integers of a shader are
  taken as unbounded (the images are far smaller than \<open>2^31\<close> pixels).
\<close>

type_synonym byte = "8 word"







subsection \<open>encode-keypoint-offsets.glsl\<close>




subsection \<open>encode-keypoints.glsl\<close>







subsection \<open>GPUEncoders\<close>





subsection \<open>orient-encoded-keypoints.glsl and descriptors/orb.glsl\<close>







subsection \<open>Decoding\<close>










subsection \<open>Vocabulary of the round trip\<close>


















section \<open>Verification: convolution generator\<close>

lemma isqrt_bounds: "isqrt n * isqrt n \<le> n \<and> n < (isqrt n + 1) * (isqrt n + 1)"
proof (induction n)
  case 0
  show ?case by simp
next
  case (Suc n)
  then show ?case by (auto simp: Let_def)
qed

lemma isqrt_unique:
  assumes "m * m \<le> n" and "n < (m + 1) * (m + 1)"
  shows "isqrt n = m"
proof -
  let ?r = "isqrt n"
  have lo: "?r * ?r \<le> n" and hi: "n < (?r + 1) * (?r + 1)"
    using isqrt_bounds [of n] by simp_all
  have "\<not> ?r < m"
  proof
    assume "?r < m"
    then have "?r + 1 \<le> m" by simp
    then have "(?r + 1) * (?r + 1) \<le> m * m" by (intro mult_le_mono)
    with assms(1) hi show False by simp
  qed
  moreover have "\<not> m < ?r"
  proof
    assume "m < ?r"
    then have "m + 1 \<le> ?r" by simp
    then have "(m + 1) * (m + 1) \<le> ?r * ?r" by (intro mult_le_mono)
    with assms(2) lo show False by simp
  qed
  ultimately show ?thesis by simp
qed

lemma isqrt_square: "isqrt (m * m) = m"
  by (rule isqrt_unique) simp_all

lemma conv2D_fatal_iff:
  "isl (conv2D ops kern nc) \<longleftrightarrow> \<not> (\<exists>m. odd m \<and> length kern = m * m)"
proof
  assume "isl (conv2D ops kern nc)"
  then have bad: "isqrt (length kern) < 1 \<or> even (isqrt (length kern))
      \<or> isqrt (length kern) * isqrt (length kern) \<noteq> length kern"
    by (auto simp: conv2D_def to_kernel32_def Let_def split: if_splits)
  show "\<not> (\<exists>m. odd m \<and> length kern = m * m)"
  proof
    assume "\<exists>m. odd m \<and> length kern = m * m"
    then obtain m where m: "odd m" "length kern = m * m" by blast
    then have "isqrt (length kern) = m" by (simp add: isqrt_square)
    with bad m show False by (auto elim: oddE)
  qed
next
  assume no: "\<not> (\<exists>m. odd m \<and> length kern = m * m)"
  show "isl (conv2D ops kern nc)"
  proof (rule ccontr)
    assume "\<not> isl (conv2D ops kern nc)"
    then have "odd (isqrt (length kern)) \<and> isqrt (length kern) * isqrt (length kern) = length kern"
      by (auto simp: conv2D_def to_kernel32_def Let_def split: if_splits)
    with no show False by metis
  qed
qed

lemma conv1D_fatal_iff:
  "isl (conv1D ops axis kern nc) \<longleftrightarrow>
     (length kern < 1 \<or> even (length kern) \<or> (axis \<noteq> AxisX \<and> axis \<noteq> AxisY))"
  by (auto simp: conv1D_def to_kernel32_def Let_def split: if_splits)

lemma foldl_append_concat: "foldl (\<lambda>acc cur. acc @ f cur) a xs = a @ concat (map f xs)"
  by (induction xs arbitrary: a) simp_all

lemma min_max_nearest: "0 < n \<Longrightarrow> min (max c 0) (n - 1) = nearest n c"
  by (simp add: nearest_def)

lemma max_min_nearest: "0 < n \<Longrightarrow> max 0 (min c (n - 1)) = nearest n c"
  by (simp add: nearest_def)

lemma nearest_range: "0 < n \<Longrightarrow> 0 \<le> nearest n c \<and> nearest n c < n"
  by (simp add: nearest_def)

lemma exec_conv2D_block:
  "fetched (foldl (exec_stmt ops w h img tx ty) s (conv2D_generateCode k i j)) =
     fetched s @ [(min (max (ty + i) 0) (h - 1), min (max (tx + j) 0) (w - 1))]"
  by (simp add: conv2D_generateCode_def Let_def)

lemma exec_conv2D_blocks:
  "fetched (foldl (exec_stmt ops w h img tx ty) s
       (concat (map (\<lambda>cur. conv2D_generateCode (kf cur) (fst cur) (snd cur)) taps))) =
     fetched s @ map (\<lambda>cur. (min (max (ty + fst cur) 0) (h - 1), min (max (tx + snd cur) 0) (w - 1))) taps"
proof (induction taps arbitrary: s)
  case Nil
  show ?case by simp
next
  case (Cons c taps)
  show ?case
    by (simp only: list.map concat.simps foldl_append Cons.IH exec_conv2D_block) simp
qed

lemma exec_conv1D_block:
  "fetched (foldl (exec_stmt ops w h img tx ty) s (conv1D_generateCode axis k i)) =
     fetched s @ [if axis = AxisX then (ty, min (max (tx + i) 0) (w - 1))
                  else (min (max (ty + i) 0) (h - 1), tx)]"
  by (simp add: conv1D_generateCode_def Let_def)

lemma exec_conv1D_blocks:
  "fetched (foldl (exec_stmt ops w h img tx ty) s
       (concat (map (\<lambda>cur. conv1D_generateCode axis (kf cur) cur) taps))) =
     fetched s @ map (\<lambda>i. if axis = AxisX then (ty, min (max (tx + i) 0) (w - 1))
                  else (min (max (ty + i) 0) (h - 1), tx)) taps"
proof (induction taps arbitrary: s)
  case Nil
  show ?case by simp
next
  case (Cons c taps)
  show ?case
    by (simp only: list.map concat.simps foldl_append Cons.IH exec_conv1D_block) simp
qed

lemma conv2D_fetched:
  assumes "conv2D ops kern nc = Inr body"
  shows "snd (run_body ops w h body img tx ty) =
     (ty, tx) # map (\<lambda>cur. (min (max (ty + fst cur) 0) (h - 1), min (max (tx + snd cur) 0) (w - 1)))
        (cartesian (symmetricRange (isqrt (length kern) div 2)) (symmetricRange (isqrt (length kern) div 2)))"
proof -
  from assms have "body = concat (map (\<lambda>cur. conv2D_generateCode
        (k_at ops (to_kernel32 ops kern nc)
           ((fst cur + int (isqrt (length kern) div 2)) * int (isqrt (length kern))
              + (snd cur + int (isqrt (length kern) div 2))))
        (fst cur) (snd cur))
     (cartesian (symmetricRange (isqrt (length kern) div 2)) (symmetricRange (isqrt (length kern) div 2))))"
    by (auto simp: conv2D_def Let_def foldl_append_concat to_kernel32_def split: if_splits)
  then show ?thesis
    by (simp only: run_body_def Let_def snd_conv exec_conv2D_blocks) (simp add: init_kstate_def)
qed

lemma conv1D_fetched:
  assumes "conv1D ops axis kern nc = Inr body"
  shows "snd (run_body ops w h body img tx ty) =
     (ty, tx) # map (\<lambda>i. if axis = AxisX then (ty, min (max (tx + i) 0) (w - 1))
                  else (min (max (ty + i) 0) (h - 1), tx))
        (symmetricRange (length kern div 2))"
proof -
  from assms have "body = concat (map (\<lambda>cur. conv1D_generateCode axis
        (k_at ops (to_kernel32 ops kern nc) (cur + int (length kern div 2))) cur)
     (symmetricRange (length kern div 2)))"
    by (auto simp: conv1D_def Let_def foldl_append_concat to_kernel32_def split: if_splits)
  then show ?thesis
    by (simp only: run_body_def Let_def snd_conv exec_conv1D_blocks) (simp add: init_kstate_def)
qed

lemma texConv_step_fetched:
  "fetched (texConv_step ops axis w h img tk N sc off tx ty s i) =
     fetched s @ [if axis = AxisX then (ky s, max 0 (min (tx + i) (w - 1)))
                  else (max 0 (min (ty + i) (h - 1)), kx s)]"
  by (simp add: texConv_step_def Let_def)

lemma texConv_step_other:
  "(axis = AxisX \<longrightarrow> ky (texConv_step ops axis w h img tk N sc off tx ty s i) = ky s)
   \<and> (axis \<noteq> AxisX \<longrightarrow> kx (texConv_step ops axis w h img tk N sc off tx ty s i) = kx s)"
  by (simp add: texConv_step_def Let_def)

lemma texConv_steps:
  "fetched (foldl (texConv_step ops axis w h img tk N sc off tx ty) s is) =
     fetched s @ map (\<lambda>i. if axis = AxisX then (ky s, max 0 (min (tx + i) (w - 1)))
                  else (max 0 (min (ty + i) (h - 1)), kx s)) is"
proof (induction "is" arbitrary: s)
  case Nil
  show ?case by simp
next
  case (Cons i "is")
  show ?case
    using texConv_step_other [of axis ops w h img tk N sc off tx ty s i]
    by (simp only: foldl_Cons Cons.IH texConv_step_fetched) auto
qed

lemma texConv_fetched:
  "snd (run_texConv ops axis w h img tk kSize sc off tx ty) =
     (ty, tx) # map (\<lambda>i. if axis = AxisX then (ty, max 0 (min (tx + i) (w - 1)))
                  else (max 0 (min (ty + i) (h - 1)), tx)) [- (kSize div 2)..kSize div 2]"
  by (simp add: run_texConv_def Let_def texConv_steps init_kstate_def)

text \<open>
  Claim C7. Construction fails fast on an invalid kernel: \<open>conv2D\<close> throws for every
  kernel array whose number of elements is not the square of an odd positive integer, and
  \<open>conv1D\<close> (also through \<open>convX\<close> and \<open>convY\<close>) throws for every kernel array whose
  length is even or less than 1. The result is then \<open>Inl\<close>: no function is returned.
\<close>

theorem conv_invalid_kernel_fatal:
  "(\<not> (\<exists>m. odd m \<and> length kern = m * m) \<longrightarrow> isl (conv2D ops kern nc))
   \<and> (even (length kern) \<or> length kern < 1 \<longrightarrow>
        isl (conv1D ops axis kern nc) \<and> isl (convX ops kern nc) \<and> isl (convY ops kern nc))"
  by (simp add: conv2D_fatal_iff conv1D_fatal_iff convX_def convY_def)

lemma two_not_odd_square: "\<not> (\<exists>m::nat. odd m \<and> length [1, 2 :: int] = m * m)"
proof
  assume "\<exists>m::nat. odd m \<and> length [1, 2 :: int] = m * m"
  then obtain m :: nat where m: "odd m" "m * m = 2" by auto
  have "m \<le> 2" using m(2) by (metis le_square)
  then have "m = 0 \<or> m = 1 \<or> m = 2" by auto
  with m show False by auto
qed

theorem conv_invalid_kernel_fatal_witness:
  "\<not> (\<exists>m::nat. odd m \<and> length [1, 2 :: int] = m * m)
   \<and> isl (conv2D exact_ops [1, 2] 1)
   \<and> (even (length [1, 2 :: int]) \<or> length [1, 2 :: int] < 1)
   \<and> isl (conv1D exact_ops AxisX [1, 2] 1) \<and> isl (convX exact_ops [1, 2] 1)
   \<and> isl (convY exact_ops [1, 2] 1)"
  using conv_invalid_kernel_fatal [of "[1, 2]" exact_ops 1 AxisX] two_not_odd_square
  by simp

lemma run_body_alpha: "ch3 (fst (run_body ops w h body img tx ty)) = ch3 (img ty tx)"
  by (simp add: run_body_def Let_def)

text \<open>
  Claim C5. Every kernel generated by \<open>conv2D\<close>, \<open>conv1D\<close> and \<open>texConv1D\<close> writes,
  at each thread, an alpha channel equal to the alpha of the input pixel at the same
  coordinate, whatever the kernel entries and the arithmetic are.
\<close>

theorem conv_preserves_alpha:
  "(conv2D ops kern nc = Inr body \<longrightarrow>
      ch3 (fst (run_body ops width height body img tx ty)) = ch3 (img ty tx))
   \<and> (conv1D ops axis kern1 nc1 = Inr body1 \<longrightarrow>
      ch3 (fst (run_body ops width height body1 img tx ty)) = ch3 (img ty tx))
   \<and> (texConv1D axis = Inr f \<longrightarrow>
      ch3 (fst (run_texConv ops f width height img texKernel0 kSize scale offset tx ty)) = ch3 (img ty tx))"
  by (simp add: run_body_alpha) (simp add: run_texConv_def Let_def)

lemma conv2D_example:
  "conv2D exact_ops [1, 2, 3, 4, 5, 6, 7, 8, 9] 1 =
     Inr [SetY_clamped (- 1), SetX_clamped (- 1), Accum 1,
          SetY_clamped (- 1), SetX_clamped 0, Accum 2,
          SetY_clamped (- 1), SetX_clamped 1, Accum 3,
          SetY_clamped 0, SetX_clamped (- 1), Accum 4,
          SetY_clamped 0, SetX_clamped 0, Accum 5,
          SetY_clamped 0, SetX_clamped 1, Accum 6,
          SetY_clamped 1, SetX_clamped (- 1), Accum 7,
          SetY_clamped 1, SetX_clamped 0, Accum 8,
          SetY_clamped 1, SetX_clamped 1, Accum 9]"
  by code_simp

lemma conv1D_example:
  "conv1D exact_ops AxisX [1, 2, 1] 1 =
     Inr [SetY_thread, SetX_clamped (- 1), Accum 1,
          SetY_thread, SetX_clamped 0, Accum 2,
          SetY_thread, SetX_clamped 1, Accum 1]"
  by code_simp

lemma texConv1D_example: "texConv1D AxisX = Inr AxisX"
  by (simp add: texConv1D_def)

theorem conv_preserves_alpha_witness:
  "conv2D exact_ops [1, 2, 3, 4, 5, 6, 7, 8, 9] 1 = Inr (projr (conv2D exact_ops [1, 2, 3, 4, 5, 6, 7, 8, 9] 1))
   \<and> ch3 (fst (run_body exact_ops 2 2 (projr (conv2D exact_ops [1, 2, 3, 4, 5, 6, 7, 8, 9] 1))
          sample_image 0 1)) = 110
   \<and> conv1D exact_ops AxisX [1, 2, 1] 1 = Inr (projr (conv1D exact_ops AxisX [1, 2, 1] 1))
   \<and> ch3 (fst (run_body exact_ops 2 2 (projr (conv1D exact_ops AxisX [1, 2, 1] 1)) sample_image 0 1)) = 110
   \<and> texConv1D AxisX = Inr AxisX
   \<and> ch3 (fst (run_texConv exact_ops AxisX 2 2 sample_image (\<lambda>i. Vec4 1 1 1 1) 3 1 0 0 1)) = 110"
  using conv_preserves_alpha [of exact_ops "[1, 2, 3, 4, 5, 6, 7, 8, 9]" 1
      "projr (conv2D exact_ops [1, 2, 3, 4, 5, 6, 7, 8, 9] 1)" 2 2 sample_image 0 1
      AxisX "[1, 2, 1]" 1 "projr (conv1D exact_ops AxisX [1, 2, 1] 1)" AxisX "\<lambda>i. Vec4 1 1 1 1" 3 1 0]
  by (simp add: conv2D_example conv1D_example texConv1D_example sample_image_def)

text \<open>
  Claim C10. For a thread inside the image, every texel that a kernel generated by
  \<open>conv2D\<close>, \<open>conv1D\<close> or \<open>texConv1D\<close> reads lies inside the image, and the sample of
  each kernel tap is taken at the coordinate nearest to the tap's position: taps beyond the
  border read the nearest edge pixel.
\<close>

theorem conv_fetches_inside:
  assumes "inside width height (ty, tx)"
  shows "(conv2D ops kern nc = Inr body \<longrightarrow>
       list_all (inside width height) (snd (run_body ops width height body img tx ty))
       \<and> snd (run_body ops width height body img tx ty) =
           (ty, tx) # map (\<lambda>cur. (nearest height (ty + fst cur), nearest width (tx + snd cur)))
             (cartesian (symmetricRange (isqrt (length kern) div 2))
                        (symmetricRange (isqrt (length kern) div 2))))
   \<and> (conv1D ops AxisX kern1 nc1 = Inr bodyX \<longrightarrow>
       list_all (inside width height) (snd (run_body ops width height bodyX img tx ty))
       \<and> snd (run_body ops width height bodyX img tx ty) =
           (ty, tx) # map (\<lambda>i. (ty, nearest width (tx + i))) (symmetricRange (length kern1 div 2)))
   \<and> (conv1D ops AxisY kern1 nc1 = Inr bodyY \<longrightarrow>
       list_all (inside width height) (snd (run_body ops width height bodyY img tx ty))
       \<and> snd (run_body ops width height bodyY img tx ty) =
           (ty, tx) # map (\<lambda>i. (nearest height (ty + i), tx)) (symmetricRange (length kern1 div 2)))
   \<and> (texConv1D AxisX = Inr fX \<longrightarrow>
       list_all (inside width height)
         (snd (run_texConv ops fX width height img texKernel0 kSize scale offset tx ty))
       \<and> snd (run_texConv ops fX width height img texKernel0 kSize scale offset tx ty) =
           (ty, tx) # map (\<lambda>i. (ty, nearest width (tx + i))) [- (kSize div 2)..kSize div 2])
   \<and> (texConv1D AxisY = Inr fY \<longrightarrow>
       list_all (inside width height)
         (snd (run_texConv ops fY width height img texKernel0 kSize scale offset tx ty))
       \<and> snd (run_texConv ops fY width height img texKernel0 kSize scale offset tx ty) =
           (ty, tx) # map (\<lambda>i. (nearest height (ty + i), tx)) [- (kSize div 2)..kSize div 2])"
proof -
  from assms have w: "0 < width" and h: "0 < height"
    and t: "0 \<le> tx" "tx < width" "0 \<le> ty" "ty < height"
    by (simp_all add: inside_def)
  have in1: "inside width height (nearest height a, nearest width b)" for a b
    using nearest_range [OF w] nearest_range [OF h] by (simp add: inside_def)
  have in2: "inside width height (ty, nearest width b)" for b
    using nearest_range [OF w] t by (simp add: inside_def)
  have in3: "inside width height (nearest height a, tx)" for a
    using nearest_range [OF h] t by (simp add: inside_def)
  have all1: "list_all (inside width height) (map (\<lambda>cur. (nearest height (ty + fst cur), nearest width (tx + snd cur))) taps)" for taps :: "(int \<times> int) list"
    by (simp add: list_all_iff in1)
  have all2: "list_all (inside width height) (map (\<lambda>i. (ty, nearest width (tx + i))) is)" for "is"
    by (simp add: list_all_iff in2)
  have all3: "list_all (inside width height) (map (\<lambda>i. (nearest height (ty + i), tx)) is)" for "is"
    by (simp add: list_all_iff in3)
  have p1: "conv2D ops kern nc = Inr body \<longrightarrow>
       list_all (inside width height) (snd (run_body ops width height body img tx ty))
       \<and> snd (run_body ops width height body img tx ty) =
           (ty, tx) # map (\<lambda>cur. (nearest height (ty + fst cur), nearest width (tx + snd cur)))
             (cartesian (symmetricRange (isqrt (length kern) div 2))
                        (symmetricRange (isqrt (length kern) div 2)))"
    using assms
    by (simp add: conv2D_fetched min_max_nearest [OF w] min_max_nearest [OF h] all1)
  have p2: "conv1D ops AxisX kern1 nc1 = Inr bodyX \<longrightarrow>
       list_all (inside width height) (snd (run_body ops width height bodyX img tx ty))
       \<and> snd (run_body ops width height bodyX img tx ty) =
           (ty, tx) # map (\<lambda>i. (ty, nearest width (tx + i))) (symmetricRange (length kern1 div 2))"
    using assms
    by (simp add: conv1D_fetched min_max_nearest [OF w] all2)
  have p3: "conv1D ops AxisY kern1 nc1 = Inr bodyY \<longrightarrow>
       list_all (inside width height) (snd (run_body ops width height bodyY img tx ty))
       \<and> snd (run_body ops width height bodyY img tx ty) =
           (ty, tx) # map (\<lambda>i. (nearest height (ty + i), tx)) (symmetricRange (length kern1 div 2))"
    using assms
    by (simp add: conv1D_fetched min_max_nearest [OF h] all3)
  have p4: "texConv1D AxisX = Inr fX \<longrightarrow>
       list_all (inside width height)
         (snd (run_texConv ops fX width height img texKernel0 kSize scale offset tx ty))
       \<and> snd (run_texConv ops fX width height img texKernel0 kSize scale offset tx ty) =
           (ty, tx) # map (\<lambda>i. (ty, nearest width (tx + i))) [- (kSize div 2)..kSize div 2]"
    using assms
    by (auto simp: texConv1D_def texConv_fetched max_min_nearest [OF w] all2)
  have p5: "texConv1D AxisY = Inr fY \<longrightarrow>
       list_all (inside width height)
         (snd (run_texConv ops fY width height img texKernel0 kSize scale offset tx ty))
       \<and> snd (run_texConv ops fY width height img texKernel0 kSize scale offset tx ty) =
           (ty, tx) # map (\<lambda>i. (nearest height (ty + i), tx)) [- (kSize div 2)..kSize div 2]"
    using assms
    by (auto simp: texConv1D_def texConv_fetched max_min_nearest [OF h] all3)
  from p1 p2 p3 p4 p5 show ?thesis by blast
qed

lemma conv1D_example_y:
  "conv1D exact_ops AxisY [1, 2, 1] 1 =
     Inr [SetY_clamped (- 1), SetX_thread, Accum 1,
          SetY_clamped 0, SetX_thread, Accum 2,
          SetY_clamped 1, SetX_thread, Accum 1]"
  by code_simp

theorem conv_fetches_inside_witness:
  "inside 2 2 (1, 0)
   \<and> conv2D exact_ops [1, 2, 3, 4, 5, 6, 7, 8, 9] 1 = Inr (projr (conv2D exact_ops [1, 2, 3, 4, 5, 6, 7, 8, 9] 1))
   \<and> list_all (inside 2 2)
        (snd (run_body exact_ops 2 2 (projr (conv2D exact_ops [1, 2, 3, 4, 5, 6, 7, 8, 9] 1)) sample_image 0 1))
   \<and> conv1D exact_ops AxisX [1, 2, 1] 1 = Inr (projr (conv1D exact_ops AxisX [1, 2, 1] 1))
   \<and> list_all (inside 2 2)
        (snd (run_body exact_ops 2 2 (projr (conv1D exact_ops AxisX [1, 2, 1] 1)) sample_image 0 1))
   \<and> conv1D exact_ops AxisY [1, 2, 1] 1 = Inr (projr (conv1D exact_ops AxisY [1, 2, 1] 1))
   \<and> list_all (inside 2 2)
        (snd (run_body exact_ops 2 2 (projr (conv1D exact_ops AxisY [1, 2, 1] 1)) sample_image 0 1))
   \<and> texConv1D AxisX = Inr AxisX
   \<and> list_all (inside 2 2)
        (snd (run_texConv exact_ops AxisX 2 2 sample_image (\<lambda>i. Vec4 1 1 1 1) 3 1 0 0 1))
   \<and> texConv1D AxisY = Inr AxisY
   \<and> list_all (inside 2 2)
        (snd (run_texConv exact_ops AxisY 2 2 sample_image (\<lambda>i. Vec4 1 1 1 1) 3 1 0 0 1))"
proof -
  have i: "inside 2 2 (1, 0)" by (simp add: inside_def)
  have c2: "conv2D exact_ops [1, 2, 3, 4, 5, 6, 7, 8, 9] 1 = Inr (projr (conv2D exact_ops [1, 2, 3, 4, 5, 6, 7, 8, 9] 1))"
    by (simp add: conv2D_example)
  have cx: "conv1D exact_ops AxisX [1, 2, 1] 1 = Inr (projr (conv1D exact_ops AxisX [1, 2, 1] 1))"
    by (simp add: conv1D_example)
  have cy: "conv1D exact_ops AxisY [1, 2, 1] 1 = Inr (projr (conv1D exact_ops AxisY [1, 2, 1] 1))"
    by (simp add: conv1D_example_y)
  have tx: "texConv1D AxisX = Inr AxisX" and ty: "texConv1D AxisY = Inr AxisY"
    by (simp_all add: texConv1D_def)
  show ?thesis
    using conv_fetches_inside [OF i, of exact_ops "[1, 2, 3, 4, 5, 6, 7, 8, 9]" 1
      "projr (conv2D exact_ops [1, 2, 3, 4, 5, 6, 7, 8, 9] 1)" sample_image
      "[1, 2, 1]" 1 "projr (conv1D exact_ops AxisX [1, 2, 1] 1)"
      "projr (conv1D exact_ops AxisY [1, 2, 1] 1)" AxisX "\<lambda>i. Vec4 1 1 1 1" 3 1 0 AxisY]
      i c2 cx cy tx ty
    by blast
qed

section \<open>Verification: upsampling, slack, expected getter\<close>

lemma and_one_zero_iff: "((a::int) AND 1 = 0) = even a"
  by (simp add: and_one_eq even_iff_mod_2_eq_zero)

lemma upsample2_even:
  assumes "0 \<le> x" "0 \<le> y" "even (x + y)"
  shows "upsample2 z img (x, y) = img (x div 2, y div 2)"
  using assms by (simp add: upsample2_def ivec2_div_def glsl_idiv_def mix_bool_def and_one_zero_iff Let_def)

lemma upsample2_odd:
  assumes "0 \<le> x" "0 \<le> y" "odd (x + y)"
  shows "upsample2 z img (x, y) = Vec4 z z z (ch3 (img (x div 2, y div 2)))"
  using assms by (simp add: upsample2_def ivec2_div_def glsl_idiv_def mix_bool_def and_one_zero_iff Let_def)

text \<open>
  Claim C6. At every output coordinate \<open>(x, y)\<close> of \<open>upsample2\<close>: when \<open>x + y\<close> is even
  the output pixel is the input pixel at \<open>(x div 2, y div 2)\<close>; when \<open>x + y\<close> is odd its
  red, green and blue are zero and its alpha is the alpha of that input pixel. The alpha
  (the scale tag) is kept at every output pixel.
\<close>

theorem upsample2_pixels:
  assumes "0 \<le> x" and "0 \<le> y"
  shows "(even (x + y) \<longrightarrow> upsample2 zero img (x, y) = img (x div 2, y div 2))
       \<and> (odd (x + y) \<longrightarrow> upsample2 zero img (x, y) = Vec4 zero zero zero (ch3 (img (x div 2, y div 2))))
       \<and> ch3 (upsample2 zero img (x, y)) = ch3 (img (x div 2, y div 2))"
  using assms upsample2_even [of x y zero img] upsample2_odd [of x y zero img]
  by (cases "even (x + y)") simp_all

theorem upsample2_pixels_witness:
  "(0::int) \<le> 3 \<and> (0::int) \<le> 5 \<and> even ((3::int) + 5) \<and> upsample2 0 sample_texture (3, 5) = Vec4 21 1 2 121
   \<and> (0::int) \<le> 2 \<and> odd ((3::int) + 2) \<and> upsample2 0 sample_texture (3, 2) = Vec4 0 0 0 111"
  using upsample2_pixels [of 3 5 0 sample_texture] upsample2_pixels [of 3 2 0 sample_texture]
  by (simp add: sample_texture_def)

lemma Math_max3_1_2: "Math_max3 1 r 2 = max 2 r"
  by (simp add: Math_max3_def max_def)

lemma slack_positive: "0 < lastCount \<Longrightarrow> slack n lastCount = max 2 (of_nat n / of_nat lastCount)"
  by (simp only: slack_def Math_max3_1_2 Math_min1_def if_True)

text \<open>
  Claim C9 says that the slack is the ratio of the current to the previous keypoint count
  clamped to \<open>[1, 2]\<close>. The call \<^verbatim>\<open>Math.min\<close> is closed before the \<open>2\<close>, which so becomes
  an argument of \<^verbatim>\<open>Math.max\<close>: with a previous count of 1 and 5 keypoints now the slack
  is 5, not 2, and 25 keypoints are requested from the encoder; with a previous count of 2
  and 1 keypoint now the slack is 2, not 1.
\<close>

theorem slack_not_clamped:
  "slack 5 1 = 5
   \<and> \<not> (1 \<le> slack 5 1 \<and> slack 5 1 \<le> 2)
   \<and> clamped_ratio 5 1 = 2
   \<and> fst (extractKeypoints \<lparr>lastKeypointCount = 1\<rparr> [a, b, c, d, e]) = 25
   \<and> slack 1 2 = 2 \<and> clamped_ratio 1 2 = 1"
  by (simp add: slack_def Math_max3_def Math_min1_def clamped_ratio_def extractKeypoints_def Let_def)

text \<open>
  Claim C8 says that the getter returns the configured number and tolerance once automatic
  sensitivity is enabled, \<^verbatim>\<open>undefined\<close> once it is disabled, and never throws. The test of
  the getter is inverted: after \<^verbatim>\<open>expected = 100\<close> it returns \<^verbatim>\<open>undefined\<close>, and while
  automatic sensitivity is disabled (after \<^verbatim>\<open>expected = undefined\<close>, or on a new object)
  it throws a \<^verbatim>\<open>TypeError\<close>.
\<close>

theorem expected_getter_inverted:
  "get_expected (set_expected \<lparr>as_expected = 0, as_tolerance = 1 / 10\<rparr> new_algorithm (ArgNumber 100))
     = Inr ValUndefined
   \<and> documented_expected (set_expected \<lparr>as_expected = 0, as_tolerance = 1 / 10\<rparr> new_algorithm (ArgNumber 100))
     = Inr (ValObject 100 (1 / 10))
   \<and> get_expected (set_expected \<lparr>as_expected = 0, as_tolerance = 1 / 10\<rparr> new_algorithm ArgUndefined)
     = Inl TypeError
   \<and> get_expected new_algorithm = Inl TypeError"
  by (simp add: get_expected_def set_expected_def new_algorithm_def documented_expected_def)

section \<open>Verification: kernel groups\<close>






























section \<open>Verification: scale encoding\<close>

lemma alpha_spec_range:
  assumes "1 \<le> M" and "0 < H" and "valid_scale M H x"
  shows "0 \<le> alpha_spec M H x \<and> alpha_spec M H x < 1"
proof -
  from assms(3) have x: "2 powr (- H) < x" "x \<le> M" by (simp_all add: valid_scale_def)
  have xpos: "0 < x" using x(1) by (smt (verit) powr_gt_zero)
  have lM: "0 \<le> log 2 M" using assms(1) by simp
  have den: "0 < log 2 M + H" using lM assms(2) by simp
  have up: "log 2 x \<le> log 2 M" using x(2) xpos by simp
  have "log 2 (2 powr (- H)) < log 2 x" using x(1) xpos by (subst log_less_cancel_iff) simp_all
  then have lo: "- H < log 2 x" by simp
  have "0 \<le> log 2 M - log 2 x" using up by simp
  then have a: "0 \<le> alpha_spec M H x" using den by (simp add: alpha_spec_def)
  have "log 2 M - log 2 x < log 2 M + H" using lo by simp
  then have b: "alpha_spec M H x < 1" using den by (simp add: alpha_spec_def)
  from a b show ?thesis by simp
qed

lemma alpha_spec_shift:
  assumes "0 < s" and "0 < x"
  shows "alpha_spec M H (s * x) = alpha_spec M H x - log 2 s / (log 2 M + H)"
  using assms by (simp add: alpha_spec_def log_mult diff_divide_distrib add_divide_distrib)


lemma two_powr_minus_levels: "2 powr (- PYRAMID_MAX_LEVELS) = (1 / 16 :: real)"
proof -
  have "(2::real) powr (- 4) = 1 / 16"
    by (simp add: powr_minus_divide)
  then show ?thesis by (simp add: PYRAMID_MAX_LEVELS_def)
qed

lemma min_scale_value: "2 powr (- PYRAMID_MAX_LEVELS) + 1 / 100000 = (6251 / 100000 :: real)"
  by (simp add: two_powr_minus_levels)

lemma setScale_alpha_spec:
  "setScale scale = alpha_spec PYRAMID_MAX_SCALE PYRAMID_MAX_LEVELS
      (max (2 powr (- PYRAMID_MAX_LEVELS) + 1 / 100000) (min scale PYRAMID_MAX_SCALE))"
  by (simp add: setScale_def alpha_spec_def Let_def)

lemma clamped_valid:
  "valid_scale PYRAMID_MAX_SCALE PYRAMID_MAX_LEVELS
     (max (2 powr (- PYRAMID_MAX_LEVELS) + 1 / 100000) (min scale PYRAMID_MAX_SCALE))"
  by (simp add: valid_scale_def min_scale_value two_powr_minus_levels PYRAMID_MAX_SCALE_def)

lemma setScale_range: "0 \<le> setScale scale \<and> setScale scale < 1"
proof -
  have "1 \<le> PYRAMID_MAX_SCALE" "0 < PYRAMID_MAX_LEVELS"
    by (simp_all add: PYRAMID_MAX_SCALE_def PYRAMID_MAX_LEVELS_def)
  from alpha_spec_range [OF this clamped_valid] show ?thesis
    by (simp only: setScale_alpha_spec)
qed

lemma setScale_in_range:
  assumes "2 powr (- PYRAMID_MAX_LEVELS) + 1 / 100000 \<le> x" and "x \<le> PYRAMID_MAX_SCALE"
  shows "setScale x = alpha_spec PYRAMID_MAX_SCALE PYRAMID_MAX_LEVELS x"
  using assms by (simp add: setScale_alpha_spec max_def min_def)

lemma scale_delta_value:
  assumes "1 / 100000 \<le> s"
  shows "scale_delta s = - log 2 s / (log 2 PYRAMID_MAX_SCALE + PYRAMID_MAX_LEVELS)"
  using assms by (simp add: scale_delta_def Let_def max_def)

lemma scale_alpha_setScale:
  assumes x: "2 powr (- PYRAMID_MAX_LEVELS) + 1 / 100000 \<le> x" "x \<le> PYRAMID_MAX_SCALE"
    and sx: "2 powr (- PYRAMID_MAX_LEVELS) + 1 / 100000 \<le> s * x" "s * x \<le> PYRAMID_MAX_SCALE"
  shows "scale_alpha s (setScale x) = setScale (s * x)
       \<and> setScale (s * x) = setScale x - log 2 s / (log 2 PYRAMID_MAX_SCALE + PYRAMID_MAX_LEVELS)"
proof -
  from x have xpos: "0 < x" and x2: "x \<le> 2"
    by (simp_all add: min_scale_value PYRAMID_MAX_SCALE_def)
  from sx have sxlo: "6251 / 100000 \<le> s * x" by (simp add: min_scale_value)
  have spos: "0 < s"
  proof (rule ccontr)
    assume "\<not> 0 < s"
    then have "s * x \<le> 0" using xpos by (simp add: mult_le_0_iff)
    with sxlo show False by simp
  qed
  have "s * x \<le> s * 2" using x2 spos by simp
  with sxlo have seps: "1 / 100000 \<le> s" by simp
  have shift: "setScale (s * x) = setScale x - log 2 s / (log 2 PYRAMID_MAX_SCALE + PYRAMID_MAX_LEVELS)"
    by (simp only: setScale_in_range [OF x] setScale_in_range [OF sx] alpha_spec_shift [OF spos xpos])
  have "setScale x + scale_delta s = setScale (s * x)"
    by (simp add: shift scale_delta_value [OF seps])
  then have "scale_alpha s (setScale x) = glsl_clamp (setScale (s * x)) 0 1"
    by (simp add: scale_alpha_def)
  also have "\<dots> = setScale (s * x)"
    using setScale_range [of "s * x"] by (simp add: glsl_clamp_def)
  finally show ?thesis using shift by simp
qed

text \<open>
  Claim C2. For every valid scale \<open>x\<close> the encoding
  \<open>alpha(x) = (log2 M - log2 x) / (log2 M + H)\<close> lies in \<open>[0, 1)\<close>, and scaling by a factor
  \<open>s\<close> shifts it: \<open>alpha(s * x) = alpha(x) - log2 s / (log2 M + H)\<close>, so that composing two
  scale factors adds their contributions. The generators compute this encoding:
  \<open>setScale\<close> writes an alpha in \<open>[0, 1)\<close> for every argument, and for scales in the range
  that \<open>setScale\<close> keeps, the shader of \<open>scale s\<close> turns the alpha of \<open>x\<close> into the alpha of
  \<open>s * x\<close>.
\<close>

theorem scale_encoding_algebra:
  assumes "1 \<le> M" and "0 < H"
  shows "(valid_scale M H x \<longrightarrow> 0 \<le> alpha_spec M H x \<and> alpha_spec M H x < 1)
       \<and> (0 < s \<and> 0 < x \<longrightarrow>
            alpha_spec M H (s * x) = alpha_spec M H x - log 2 s / (log 2 M + H))
       \<and> (0 < s1 \<and> 0 < s2 \<and> 0 < x \<longrightarrow>
            alpha_spec M H (s1 * s2 * x) =
              alpha_spec M H x + (- log 2 s1 / (log 2 M + H)) + (- log 2 s2 / (log 2 M + H)))
       \<and> 0 \<le> setScale scale \<and> setScale scale < 1
       \<and> setScale scale = alpha_spec PYRAMID_MAX_SCALE PYRAMID_MAX_LEVELS
            (max (2 powr (- PYRAMID_MAX_LEVELS) + 1 / 100000) (min scale PYRAMID_MAX_SCALE))
       \<and> (2 powr (- PYRAMID_MAX_LEVELS) + 1 / 100000 \<le> x \<and> x \<le> PYRAMID_MAX_SCALE
          \<and> 2 powr (- PYRAMID_MAX_LEVELS) + 1 / 100000 \<le> s * x \<and> s * x \<le> PYRAMID_MAX_SCALE \<longrightarrow>
            scale_alpha s (setScale x) = setScale (s * x)
          \<and> setScale (s * x) = setScale x - log 2 s / (log 2 PYRAMID_MAX_SCALE + PYRAMID_MAX_LEVELS))"
proof -
  have p1: "valid_scale M H x \<longrightarrow> 0 \<le> alpha_spec M H x \<and> alpha_spec M H x < 1"
    using alpha_spec_range [OF assms] by blast
  have p2: "0 < s \<and> 0 < x \<longrightarrow>
      alpha_spec M H (s * x) = alpha_spec M H x - log 2 s / (log 2 M + H)"
    using alpha_spec_shift by blast
  have p3: "0 < s1 \<and> 0 < s2 \<and> 0 < x \<longrightarrow>
      alpha_spec M H (s1 * s2 * x) =
        alpha_spec M H x + (- log 2 s1 / (log 2 M + H)) + (- log 2 s2 / (log 2 M + H))"
  proof
    assume a: "0 < s1 \<and> 0 < s2 \<and> 0 < x"
    then have "0 < s2 * x" by simp
    with a have "alpha_spec M H (s1 * (s2 * x)) =
        alpha_spec M H x - log 2 s2 / (log 2 M + H) - log 2 s1 / (log 2 M + H)"
      by (simp only: alpha_spec_shift)
    then show "alpha_spec M H (s1 * s2 * x) =
        alpha_spec M H x + (- log 2 s1 / (log 2 M + H)) + (- log 2 s2 / (log 2 M + H))"
      by (simp add: mult.assoc)
  qed
  have p4: "2 powr (- PYRAMID_MAX_LEVELS) + 1 / 100000 \<le> x \<and> x \<le> PYRAMID_MAX_SCALE
          \<and> 2 powr (- PYRAMID_MAX_LEVELS) + 1 / 100000 \<le> s * x \<and> s * x \<le> PYRAMID_MAX_SCALE \<longrightarrow>
            scale_alpha s (setScale x) = setScale (s * x)
          \<and> setScale (s * x) = setScale x - log 2 s / (log 2 PYRAMID_MAX_SCALE + PYRAMID_MAX_LEVELS)"
    using scale_alpha_setScale by blast
  from p1 p2 p3 p4 setScale_range [of scale] setScale_alpha_spec [of scale]
  show ?thesis by blast
qed


lemma log2_half: "log 2 (1 / 2 :: real) = - 1"
  by (simp add: log_divide)

theorem scale_encoding_algebra_witness:
  "(1::real) \<le> 2 \<and> (0::real) < 4
   \<and> valid_scale 2 4 1 \<and> 0 \<le> alpha_spec 2 4 1 \<and> alpha_spec 2 4 1 < 1
   \<and> (0::real) < 1 / 2 \<and> (0::real) < 1
   \<and> alpha_spec 2 4 (1 / 2 * 1) = alpha_spec 2 4 1 - log 2 (1 / 2) / (log 2 2 + 4)
   \<and> alpha_spec 2 4 (1 / 2 * (1 / 2) * 1) = 1 / 5 + 1 / 5 + 1 / 5
   \<and> 2 powr (- PYRAMID_MAX_LEVELS) + 1 / 100000 \<le> (1::real) \<and> 1 \<le> PYRAMID_MAX_SCALE
   \<and> 2 powr (- PYRAMID_MAX_LEVELS) + 1 / 100000 \<le> 1 / 2 * (1::real) \<and> 1 / 2 * 1 \<le> PYRAMID_MAX_SCALE
   \<and> scale_alpha (1 / 2) (setScale 1) = setScale (1 / 2 * 1)
   \<and> setScale (1 / 2 * 1) = 2 / 5"
proof -
  have v: "valid_scale 2 4 1"
    by (simp add: valid_scale_def powr_minus_divide)
  have r: "2 powr (- PYRAMID_MAX_LEVELS) + 1 / 100000 \<le> (1::real)" "1 \<le> PYRAMID_MAX_SCALE"
    "2 powr (- PYRAMID_MAX_LEVELS) + 1 / 100000 \<le> 1 / 2 * (1::real)" "1 / 2 * 1 \<le> PYRAMID_MAX_SCALE"
    by (simp_all add: min_scale_value PYRAMID_MAX_SCALE_def)
  have a1: "alpha_spec 2 4 1 = 1 / 5"
    by (simp add: alpha_spec_def)
  have s1: "setScale 1 = 1 / 5"
    by (simp add: setScale_in_range [OF r(1,2)] alpha_spec_def PYRAMID_MAX_SCALE_def PYRAMID_MAX_LEVELS_def)
  have h: "(1::real) \<le> 2" "(0::real) < 4" by simp_all
  note t = scale_encoding_algebra [where M = 2 and H = 4 and x = 1 and s = "1 / 2"
      and ?s1.0 = "1 / 2" and ?s2.0 = "1 / 2" and scale = 1, OF h]
  from t v have c1: "0 \<le> alpha_spec 2 4 1 \<and> alpha_spec 2 4 1 < 1" by simp
  from t have c2: "alpha_spec 2 4 (1 / 2 * 1) = alpha_spec 2 4 1 - log 2 (1 / 2) / (log 2 2 + 4)"
    by simp
  from t have "alpha_spec 2 4 (1 / 2 * (1 / 2) * 1) =
      alpha_spec 2 4 1 + (- log 2 (1 / 2) / (log 2 2 + 4)) + (- log 2 (1 / 2) / (log 2 2 + 4))"
    by simp
  then have c3: "alpha_spec 2 4 (1 / 2 * (1 / 2) * 1) = 1 / 5 + 1 / 5 + 1 / 5"
    by (simp only: a1 log2_half) simp
  from t r have c4: "scale_alpha (1 / 2) (setScale 1) = setScale (1 / 2 * 1)
      \<and> setScale (1 / 2 * 1) = setScale 1 - log 2 (1 / 2) / (log 2 PYRAMID_MAX_SCALE + PYRAMID_MAX_LEVELS)"
    by blast
  then have c5: "setScale (1 / 2 * 1) = 2 / 5"
    by (simp only: s1 log2_half) (simp add: PYRAMID_MAX_SCALE_def PYRAMID_MAX_LEVELS_def)
  from v c1 c2 c3 r c4 c5 show ?thesis by simp
qed

section \<open>Verification: keypoint codec\<close>






















lemma byte_of_nat: "n \<le> 255 \<Longrightarrow> unat (of_nat n :: byte) = n"
  by (simp add: unat_of_nat)




































end
